theory Spec2Isabelle
  imports Main "HOL-Library.Word"
begin

unbundle bit_operations_syntax

section \<open>The projection shim of Projections/Core-x64\<close>

text \<open>
  Core.cpp exports seven functions; each body is one call of a function of the PROJ.4
  library (proj_api.h), which is not part of the repository. The library is therefore a
  parameter of the model: a record of four functions over a state of its own. Every
  theorem below holds for every such record.
\<close>

subsection \<open>C types of the x64 build\<close>

text \<open>
  Core.h uses \<^verbatim>\<open>__declspec\<close> and \<^verbatim>\<open>__stdcall\<close>, so the target is
  the Microsoft x64 ABI: pointers are 64 bits wide, \<^verbatim>\<open>int\<close> and \<^verbatim>\<open>long\<close> are both 32 bits.
  A \<^verbatim>\<open>double\<close> is kept as its 64-bit pattern: the shim never computes with one.
\<close>

type_synonym addr = "64 word"
type_synonym cint = "32 word"
type_synonym clong = "32 word"
type_synonym dbl = "64 word"
type_synonym memory = "addr \<Rightarrow> dbl"

definition NULL :: addr where
  "NULL = 0"

text \<open>\<^verbatim>\<open>(projPJ)hdl\<close>: a \<^verbatim>\<open>const void*\<close> reinterpreted as \<^verbatim>\<open>void*\<close>; the address is kept.\<close>

definition projPJ_cast :: "addr \<Rightarrow> addr" where
  "projPJ_cast hdl = hdl"

text \<open>
  A parameter of type \<^verbatim>\<open>double&\<close> is the object it is bound to; \<^verbatim>\<open>&x\<close> in the
  body gives the address of that object.
\<close>

datatype double_ref = Ref addr

fun address_of :: "double_ref \<Rightarrow> addr" where
  "address_of (Ref a) = a"

subsection \<open>The external library\<close>

text \<open>
  The four functions of proj_api.h that Core.cpp calls. \<open>'s\<close> is whatever the library
  keeps (its projection objects, its error number). \<open>None\<close> is a call that does not
  return (an access violation inside the library, for instance). Only
  \<^verbatim>\<open>pj_transform\<close> is handed pointers to coordinates, so only it gets the memory of doubles.
\<close>

record 's proj_api =
  pj_init_plus :: "string \<Rightarrow> 's \<Rightarrow> (addr \<times> 's) option"
  pj_is_latlong :: "addr \<Rightarrow> 's \<Rightarrow> (cint \<times> 's) option"
  pj_free :: "addr \<Rightarrow> 's \<Rightarrow> 's option"
  pj_transform :: "addr \<Rightarrow> addr \<Rightarrow> clong \<Rightarrow> cint \<Rightarrow> addr \<Rightarrow> addr \<Rightarrow> addr
                     \<Rightarrow> 's \<Rightarrow> memory \<Rightarrow> (cint \<times> 's \<times> memory) option"

text \<open>One entry per call that crosses into the library, with the arguments as passed.\<close>

datatype ext_call =
    Pj_init_plus string
  | Pj_is_latlong addr
  | Pj_free addr
  | Pj_transform addr addr clong cint addr addr addr

text \<open>
  What a call of the shim can see and change: the library's state, the caller's
  coordinates, and the log of library calls made so far. Core.cpp declares no variable
  outside its function bodies, so there is no component for the shim itself.
\<close>

record 's world =
  lib :: 's
  mem :: memory
  calls :: "ext_call list"


subsection \<open>Calls into the library\<close>

text \<open>
  Each function runs the library function on the current state and appends the call to
  the log. A call that does not return leaves no world behind.
\<close>

definition call_pj_init_plus :: "'s proj_api \<Rightarrow> string \<Rightarrow> 's world \<Rightarrow> (addr \<times> 's world) option" where
  "call_pj_init_plus L wkt w =
     (case pj_init_plus L wkt (lib w) of
        None \<Rightarrow> None
      | Some (h, s') \<Rightarrow> Some (h, w\<lparr>lib := s', calls := calls w @ [Pj_init_plus wkt]\<rparr>))"

definition call_pj_is_latlong :: "'s proj_api \<Rightarrow> addr \<Rightarrow> 's world \<Rightarrow> (cint \<times> 's world) option" where
  "call_pj_is_latlong L h w =
     (case pj_is_latlong L h (lib w) of
        None \<Rightarrow> None
      | Some (r, s') \<Rightarrow> Some (r, w\<lparr>lib := s', calls := calls w @ [Pj_is_latlong h]\<rparr>))"

definition call_pj_free :: "'s proj_api \<Rightarrow> addr \<Rightarrow> 's world \<Rightarrow> (unit \<times> 's world) option" where
  "call_pj_free L h w =
     (case pj_free L h (lib w) of
        None \<Rightarrow> None
      | Some s' \<Rightarrow> Some ((), w\<lparr>lib := s', calls := calls w @ [Pj_free h]\<rparr>))"

definition call_pj_transform ::
  "'s proj_api \<Rightarrow> addr \<Rightarrow> addr \<Rightarrow> clong \<Rightarrow> cint \<Rightarrow> addr \<Rightarrow> addr \<Rightarrow> addr
     \<Rightarrow> 's world \<Rightarrow> (cint \<times> 's world) option" where
  "call_pj_transform L src dst n off x y z w =
     (case pj_transform L src dst n off x y z (lib w) (mem w) of
        None \<Rightarrow> None
      | Some (rc, s', m') \<Rightarrow>
          Some (rc, \<lparr>lib = s', mem = m', calls = calls w @ [Pj_transform src dst n off x y z]\<rparr>))"

subsection \<open>The exported functions\<close>

definition initProjection :: "'s proj_api \<Rightarrow> string \<Rightarrow> 's world \<Rightarrow> (addr \<times> 's world) option" where
  "initProjection L wkt w = call_pj_init_plus L wkt w"

definition isLatLon :: "'s proj_api \<Rightarrow> addr \<Rightarrow> 's world \<Rightarrow> (bool \<times> 's world) option" where
  "isLatLon L hdl w =
     (case call_pj_is_latlong L (projPJ_cast hdl) w of
        None \<Rightarrow> None
      | Some (r, w') \<Rightarrow> Some ((if r \<noteq> 0 then True else False), w'))"

text \<open>A \<^verbatim>\<open>void\<close> function returns the unit value.\<close>

definition freeProjection :: "'s proj_api \<Rightarrow> addr \<Rightarrow> 's world \<Rightarrow> (unit \<times> 's world) option" where
  "freeProjection L hdl w = call_pj_free L (projPJ_cast hdl) w"

definition transformPoints ::
  "'s proj_api \<Rightarrow> addr \<Rightarrow> addr \<Rightarrow> clong \<Rightarrow> cint \<Rightarrow> addr \<Rightarrow> addr \<Rightarrow> addr
     \<Rightarrow> 's world \<Rightarrow> (cint \<times> 's world) option" where
  "transformPoints L src dst point_count point_offset x y z w =
     call_pj_transform L (projPJ_cast src) (projPJ_cast dst) point_count point_offset x y z w"

definition transformSimplePoints ::
  "'s proj_api \<Rightarrow> addr \<Rightarrow> addr \<Rightarrow> clong \<Rightarrow> cint \<Rightarrow> addr \<Rightarrow> addr
     \<Rightarrow> 's world \<Rightarrow> (cint \<times> 's world) option" where
  "transformSimplePoints L src dst point_count point_offset x y w =
     call_pj_transform L (projPJ_cast src) (projPJ_cast dst) point_count point_offset x y NULL w"

definition transformPoint ::
  "'s proj_api \<Rightarrow> addr \<Rightarrow> addr \<Rightarrow> double_ref \<Rightarrow> double_ref \<Rightarrow> double_ref
     \<Rightarrow> 's world \<Rightarrow> (cint \<times> 's world) option" where
  "transformPoint L src dst x y z w =
     call_pj_transform L (projPJ_cast src) (projPJ_cast dst) 1 0
       (address_of x) (address_of y) (address_of z) w"

definition transformSimplePoint ::
  "'s proj_api \<Rightarrow> addr \<Rightarrow> addr \<Rightarrow> double_ref \<Rightarrow> double_ref
     \<Rightarrow> 's world \<Rightarrow> (cint \<times> 's world) option" where
  "transformSimplePoint L src dst x y w =
     call_pj_transform L (projPJ_cast src) (projPJ_cast dst) 1 0
       (address_of x) (address_of y) NULL w"

subsection \<open>What a caller observes\<close>

text \<open>The value returned together with the library state left behind.\<close>

definition returned :: "('a \<times> 's world) option \<Rightarrow> ('a \<times> 's) option" where
  "returned r = (case r of None \<Rightarrow> None | Some (v, w') \<Rightarrow> Some (v, lib w'))"



subsection \<open>Two instances of the library interface\<close>

text \<open>
  \<open>elem_addr p off i\<close> is the address of \<^verbatim>\<open>p[off * i]\<close> in an array of doubles
  (8 bytes each): the element that belongs to point \<open>i\<close> under stride \<open>off\<close>.
\<close>

definition elem_addr :: "addr \<Rightarrow> cint \<Rightarrow> nat \<Rightarrow> addr" where
  "elem_addr p off i = p + 8 * word_of_int (sint off * int i)"

text \<open>Flipping bit 63 of a binary64 pattern negates the double.\<close>

definition dneg :: "dbl \<Rightarrow> dbl" where
  "dneg d = d XOR 0x8000000000000000"

text \<open>The pattern of \<^verbatim>\<open>HUGE_VAL\<close> (plus infinity).\<close>

definition HUGE_VAL :: dbl where
  "HUGE_VAL = 0x7FF0000000000000"

fun mirror_points :: "nat \<Rightarrow> cint \<Rightarrow> addr \<Rightarrow> addr \<Rightarrow> memory \<Rightarrow> memory" where
  "mirror_points 0 off x y m = m"
| "mirror_points (Suc k) off x y m =
     (let m1 = mirror_points k off x y m;
          m2 = m1(elem_addr x off k := dneg (m1 (elem_addr x off k)))
      in m2(elem_addr y off k := dneg (m2 (elem_addr y off k))))"

text \<open>
  \<open>mirror_proj\<close>: handles are handed out in steps of 16 and kept in a list; the empty
  definition string is refused with a null handle; a null handle counts as geographic;
  a transform between two different handles negates x and y of each point in turn,
  one between equal handles changes nothing, one on a null handle does not return.
\<close>

definition mirror_proj :: "(addr list) proj_api" where
  "mirror_proj =
     \<lparr> pj_init_plus = (\<lambda>wkt s.
          if wkt = [] then Some (NULL, s)
          else let h = 16 * (of_nat (length s) + 1) in Some (h, s @ [h])),
       pj_is_latlong = (\<lambda>h s. Some ((if h = NULL then 1 else 0), s)),
       pj_free = (\<lambda>h s. Some (removeAll h s)),
       pj_transform = (\<lambda>src dst n off x y z s m.
          if src = NULL \<or> dst = NULL then None
          else if src = dst then Some (0, s, m)
          else Some (0, s, mirror_points (nat (sint n)) off x y m)) \<rparr>"

text \<open>
  \<open>failfast_proj\<close>: as \<open>mirror_proj\<close>, but its transform looks at no handle and gives
  up at the first point: it stores \<^verbatim>\<open>HUGE_VAL\<close> in x and y of point 0 and reports
  error -14.
\<close>

definition failfast_proj :: "(addr list) proj_api" where
  "failfast_proj =
     mirror_proj\<lparr> pj_transform := (\<lambda>src dst n off x y z s m.
        if 0 < sint n then Some (- 14, s, m(x := HUGE_VAL, y := HUGE_VAL))
        else Some (0, s, m)) \<rparr>"

text \<open>
  A world with two live handles and two points:
  x = (1.0, 3.0) at 0x1000, y = (2.0, 4.0) at 0x2000, z = (0.0, 0.0) at 0x3000.
\<close>

definition mem0 :: memory where
  "mem0 = (\<lambda>a. 0)(0x1000 := 0x3FF0000000000000, 0x1008 := 0x4008000000000000,
                   0x2000 := 0x4000000000000000, 0x2008 := 0x4010000000000000)"

definition world0 :: "(addr list) world" where
  "world0 = \<lparr> lib = [16, 32], mem = mem0, calls = [] \<rparr>"


text \<open>\<open>world0\<close> with an older call in the log.\<close>

definition world2 :: "(addr list) world" where
  "world2 = \<lparr> lib = [16, 32], mem = mem0, calls = [Pj_free 48] \<rparr>"

section \<open>Evaluation of the two library instances\<close>

lemma world0_simps:
  "lib world0 = [16, 32]" "mem world0 = mem0" "calls world0 = []"
  by (simp_all add: world0_def)

lemma mirror_proj_simps:
  "pj_init_plus mirror_proj wkt s =
     (if wkt = [] then Some (NULL, s)
      else Some (16 * (of_nat (length s) + 1), s @ [16 * (of_nat (length s) + 1)]))"
  "pj_is_latlong mirror_proj h s = Some ((if h = NULL then 1 else 0), s)"
  "pj_free mirror_proj h s = Some (removeAll h s)"
  "pj_transform mirror_proj src dst n off x y z s m =
     (if src = NULL \<or> dst = NULL then None
      else if src = dst then Some (0, s, m)
      else Some (0, s, mirror_points (nat (sint n)) off x y m))"
  by (simp_all add: mirror_proj_def Let_def)

lemma failfast_proj_simps:
  "pj_init_plus failfast_proj = pj_init_plus mirror_proj"
  "pj_is_latlong failfast_proj = pj_is_latlong mirror_proj"
  "pj_free failfast_proj = pj_free mirror_proj"
  "pj_transform failfast_proj src dst n off x y z s m =
     (if 0 < sint n then Some (- 14, s, m(x := HUGE_VAL, y := HUGE_VAL)) else Some (0, s, m))"
  by (simp_all add: failfast_proj_def)


section \<open>Forwarding of the transform call\<close>

text \<open>
  C1. For every source handle, destination handle, count, stride and x/y/z pointers:
  when the library's \<^verbatim>\<open>pj_transform\<close>, called with exactly these arguments on the
  current library state and memory, returns status \<open>rc\<close>, \<open>transformPoints\<close> returns
  that same \<open>rc\<close> (zero or not), leaves the state and memory the library left, and
  has made exactly one library call, a \<^verbatim>\<open>pj_transform\<close> with those arguments.
\<close>

theorem transformPoints_forwards:
  assumes "pj_transform L src dst n off x y z (lib w) (mem w) = Some (rc, s', m')"
  shows "transformPoints L src dst n off x y z w =
           Some (rc, \<lparr>lib = s', mem = m', calls = calls w @ [Pj_transform src dst n off x y z]\<rparr>)"
  using assms by (simp add: transformPoints_def call_pj_transform_def projPJ_cast_def)

theorem transformPoints_forwards_witness:
  "pj_transform failfast_proj 16 32 2 1 0x1000 0x2000 0x3000 (lib world0) (mem world0) =
     Some (- 14, [16, 32], mem0(0x1000 := HUGE_VAL, 0x2000 := HUGE_VAL))
   \<and> transformPoints failfast_proj 16 32 2 1 0x1000 0x2000 0x3000 world0 =
     Some (- 14, \<lparr>lib = [16, 32], mem = mem0(0x1000 := HUGE_VAL, 0x2000 := HUGE_VAL),
                  calls = [Pj_transform 16 32 2 1 0x1000 0x2000 0x3000]\<rparr>)"
proof -
  have h: "pj_transform failfast_proj 16 32 2 1 0x1000 0x2000 0x3000 (lib world0) (mem world0) =
     Some (- 14, [16, 32], mem0(0x1000 := HUGE_VAL, 0x2000 := HUGE_VAL))"
    by (simp add: failfast_proj_simps world0_simps)
  show ?thesis
    using h transformPoints_forwards [OF h] by (simp add: world0_simps)
qed

section \<open>The geographic query\<close>

text \<open>
  C2. For every handle: when the library's \<^verbatim>\<open>pj_is_latlong\<close> on that handle returns
  the integer \<open>r\<close>, \<open>isLatLon\<close> returns the boolean \<open>r \<noteq> 0\<close>: true exactly when
  \<open>r\<close> is non-zero, false exactly when it is zero.
\<close>

theorem isLatLon_nonzero:
  assumes "pj_is_latlong L hdl (lib w) = Some (r, s')"
  shows "isLatLon L hdl w =
           Some (r \<noteq> 0, w\<lparr>lib := s', calls := calls w @ [Pj_is_latlong hdl]\<rparr>)"
  using assms by (simp add: isLatLon_def call_pj_is_latlong_def projPJ_cast_def)

theorem isLatLon_nonzero_witness:
  "pj_is_latlong mirror_proj NULL (lib world0) = Some (1, [16, 32])
   \<and> isLatLon mirror_proj NULL world0 =
       Some (True, \<lparr>lib = [16, 32], mem = mem0, calls = [Pj_is_latlong NULL]\<rparr>)
   \<and> pj_is_latlong mirror_proj 16 (lib world0) = Some (0, [16, 32])
   \<and> isLatLon mirror_proj 16 world0 =
       Some (False, \<lparr>lib = [16, 32], mem = mem0, calls = [Pj_is_latlong 16]\<rparr>)"
proof -
  have h1: "pj_is_latlong mirror_proj NULL (lib world0) = Some (1, [16, 32])"
    by (simp add: mirror_proj_simps world0_simps)
  have h2: "pj_is_latlong mirror_proj 16 (lib world0) = Some (0, [16, 32])"
    by (simp add: mirror_proj_simps world0_simps NULL_def)
  show ?thesis
    using h1 h2 isLatLon_nonzero [OF h1] isLatLon_nonzero [OF h2]
    by (simp add: world0_def)
qed

section \<open>Creating a projection\<close>

text \<open>
  C3. For every definition string: \<open>initProjection\<close> makes one call of
  \<^verbatim>\<open>pj_init_plus\<close> with that string and returns the handle the library returned,
  whatever it is: a non-null handle, or the null handle with which the library reports
  that it could not build the projection. The shim fails to return only when the
  library call itself does not return; it checks nothing of its own.
\<close>

theorem initProjection_forwards:
  "(pj_init_plus L wkt (lib w) = Some (h, s') \<longrightarrow>
      initProjection L wkt w =
        Some (h, w\<lparr>lib := s', calls := calls w @ [Pj_init_plus wkt]\<rparr>))
   \<and> (pj_init_plus L wkt (lib w) = Some (NULL, s') \<longrightarrow>
      returned (initProjection L wkt w) = Some (NULL, s'))
   \<and> (initProjection L wkt w = None \<longleftrightarrow> pj_init_plus L wkt (lib w) = None)"
  by (auto simp: initProjection_def call_pj_init_plus_def returned_def split: option.splits)

theorem initProjection_forwards_witness:
  "pj_init_plus mirror_proj ''+proj=longlat'' (lib world0) = Some (48, [16, 32, 48])
   \<and> initProjection mirror_proj ''+proj=longlat'' world0 =
       Some (48, \<lparr>lib = [16, 32, 48], mem = mem0, calls = [Pj_init_plus ''+proj=longlat'']\<rparr>)
   \<and> pj_init_plus mirror_proj [] (lib world0) = Some (NULL, [16, 32])
   \<and> returned (initProjection mirror_proj [] world0) = Some (NULL, [16, 32])
   \<and> initProjection mirror_proj [] world0 \<noteq> None"
proof -
  have h1: "pj_init_plus mirror_proj ''+proj=longlat'' (lib world0) = Some (48, [16, 32, 48])"
    by (simp add: mirror_proj_simps world0_simps)
  have h2: "pj_init_plus mirror_proj [] (lib world0) = Some (NULL, [16, 32])"
    by (simp add: mirror_proj_simps world0_simps)
  show ?thesis
    using h1 h2
      initProjection_forwards [of mirror_proj "''+proj=longlat''" world0 48 "[16, 32, 48]"]
      initProjection_forwards [of mirror_proj "[]" world0 NULL "[16, 32]"]
    by (simp add: world0_def returned_def)
qed

section \<open>The entry points without z, and for a single point\<close>

text \<open>
  C4. For every source handle, destination handle, count, stride and x/y pointers,
  \<open>transformSimplePoints\<close> has the outcome of \<open>transformPoints\<close> on the same
  arguments with a null z pointer: the same library call in the log, the same library
  state and memory afterwards, the same status.
\<close>

theorem transformSimplePoints_null_z:
  "transformSimplePoints L src dst n off x y w = transformPoints L src dst n off x y NULL w"
  by (simp add: transformSimplePoints_def transformPoints_def)

text \<open>
  C5. For every pair of handles and every referenced coordinates, \<open>transformPoint\<close>
  has the outcome of \<open>transformPoints\<close> with count 1, stride 0 and the addresses of
  x, y and z, and \<open>transformSimplePoint\<close> that of \<open>transformSimplePoints\<close> with
  count 1, stride 0 and the addresses of x and y.
\<close>

theorem transformPoint_single:
  "transformPoint L src dst x y z w =
     transformPoints L src dst 1 0 (address_of x) (address_of y) (address_of z) w
   \<and> transformSimplePoint L src dst x y w =
     transformSimplePoints L src dst 1 0 (address_of x) (address_of y) w"
  by (simp add: transformPoint_def transformPoints_def
        transformSimplePoint_def transformSimplePoints_def)

section \<open>No state and no checks in the shim\<close>






text \<open>
  C9. For every handle, null or not, in the source or the destination position, the
  whole outcome of each of the six functions that take one is the library's answer to
  the one call made with that handle as given: the function fails to return exactly
  when that call does, and otherwise returns the library's value (for \<open>isLatLon\<close>
  its truth value), the library's state and memory, and a log longer by that one call.
  No outcome depends on the handle in any other way, so the shim tests no handle and
  has no error result of its own.
\<close>

theorem shim_forwards_any_handle:
  "isLatLon L h w =
     (case pj_is_latlong L h (lib w) of
        None \<Rightarrow> None
      | Some (r, s') \<Rightarrow> Some (r \<noteq> 0, w\<lparr>lib := s', calls := calls w @ [Pj_is_latlong h]\<rparr>))
   \<and> freeProjection L h w =
     (case pj_free L h (lib w) of
        None \<Rightarrow> None
      | Some s' \<Rightarrow> Some ((), w\<lparr>lib := s', calls := calls w @ [Pj_free h]\<rparr>))
   \<and> transformPoints L h d n off x y z w =
     (case pj_transform L h d n off x y z (lib w) (mem w) of
        None \<Rightarrow> None
      | Some (rc, s', m') \<Rightarrow>
          Some (rc, \<lparr>lib = s', mem = m', calls = calls w @ [Pj_transform h d n off x y z]\<rparr>))
   \<and> transformSimplePoints L h d n off x y w =
     (case pj_transform L h d n off x y NULL (lib w) (mem w) of
        None \<Rightarrow> None
      | Some (rc, s', m') \<Rightarrow>
          Some (rc, \<lparr>lib = s', mem = m', calls = calls w @ [Pj_transform h d n off x y NULL]\<rparr>))
   \<and> transformPoint L h d rx ry rz w =
     (case pj_transform L h d 1 0 (address_of rx) (address_of ry) (address_of rz) (lib w) (mem w) of
        None \<Rightarrow> None
      | Some (rc, s', m') \<Rightarrow>
          Some (rc, \<lparr>lib = s', mem = m',
                     calls = calls w @ [Pj_transform h d 1 0 (address_of rx) (address_of ry) (address_of rz)]\<rparr>))
   \<and> transformSimplePoint L h d rx ry w =
     (case pj_transform L h d 1 0 (address_of rx) (address_of ry) NULL (lib w) (mem w) of
        None \<Rightarrow> None
      | Some (rc, s', m') \<Rightarrow>
          Some (rc, \<lparr>lib = s', mem = m',
                     calls = calls w @ [Pj_transform h d 1 0 (address_of rx) (address_of ry) NULL]\<rparr>))"
proof -
  have l: "isLatLon L h w =
     (case pj_is_latlong L h (lib w) of
        None \<Rightarrow> None
      | Some (r, s') \<Rightarrow> Some (r \<noteq> 0, w\<lparr>lib := s', calls := calls w @ [Pj_is_latlong h]\<rparr>))"
    by (simp add: isLatLon_def call_pj_is_latlong_def projPJ_cast_def split: option.splits)
  have f: "freeProjection L h w =
     (case pj_free L h (lib w) of
        None \<Rightarrow> None
      | Some s' \<Rightarrow> Some ((), w\<lparr>lib := s', calls := calls w @ [Pj_free h]\<rparr>))"
    by (simp add: freeProjection_def call_pj_free_def projPJ_cast_def)
  show ?thesis
    unfolding transformPoints_def transformSimplePoints_def transformPoint_def
      transformSimplePoint_def projPJ_cast_def call_pj_transform_def
    by (intro conjI l f refl)
qed

theorem shim_forwards_any_handle_witness:
  "pj_is_latlong mirror_proj NULL (lib world2) = Some (1, [16, 32])
   \<and> isLatLon mirror_proj NULL world2 =
       Some (True, \<lparr>lib = [16, 32], mem = mem0, calls = [Pj_free 48, Pj_is_latlong NULL]\<rparr>)
   \<and> freeProjection mirror_proj NULL world2 =
       Some ((), \<lparr>lib = [16, 32], mem = mem0, calls = [Pj_free 48, Pj_free NULL]\<rparr>)
   \<and> pj_transform mirror_proj NULL 32 2 1 0x1000 0x2000 0x3000 (lib world2) (mem world2) = None
   \<and> transformPoints mirror_proj NULL 32 2 1 0x1000 0x2000 0x3000 world2 = None
   \<and> transformSimplePoints mirror_proj 16 NULL 2 1 0x1000 0x2000 world2 = None
   \<and> transformPoint mirror_proj NULL 32 (Ref 0x1000) (Ref 0x2000) (Ref 0x3000) world2 = None
   \<and> transformSimplePoint mirror_proj 16 NULL (Ref 0x1000) (Ref 0x2000) world2 = None
   \<and> transformPoints failfast_proj NULL NULL 2 1 0x1000 0x2000 0x3000 world2 =
       Some (- 14, \<lparr>lib = [16, 32], mem = mem0(0x1000 := HUGE_VAL, 0x2000 := HUGE_VAL),
                    calls = [Pj_free 48, Pj_transform NULL NULL 2 1 0x1000 0x2000 0x3000]\<rparr>)
   \<and> transformSimplePoints failfast_proj NULL NULL 0 1 0x1000 0x2000 world2 =
       Some (0, \<lparr>lib = [16, 32], mem = mem0,
                 calls = [Pj_free 48, Pj_transform NULL NULL 0 1 0x1000 0x2000 NULL]\<rparr>)
   \<and> transformPoint failfast_proj NULL NULL (Ref 0x1000) (Ref 0x2000) (Ref 0x3000) world2 =
       Some (- 14, \<lparr>lib = [16, 32], mem = mem0(0x1000 := HUGE_VAL, 0x2000 := HUGE_VAL),
                    calls = [Pj_free 48, Pj_transform NULL NULL 1 0 0x1000 0x2000 0x3000]\<rparr>)
   \<and> transformSimplePoint failfast_proj NULL NULL (Ref 0x1000) (Ref 0x2000) world2 =
       Some (- 14, \<lparr>lib = [16, 32], mem = mem0(0x1000 := HUGE_VAL, 0x2000 := HUGE_VAL),
                    calls = [Pj_free 48, Pj_transform NULL NULL 1 0 0x1000 0x2000 NULL]\<rparr>)"
proof -
  show ?thesis
    using shim_forwards_any_handle [of mirror_proj NULL world2 32 2 1 "0x1000" "0x2000" "0x3000"
              "Ref 0x1000" "Ref 0x2000" "Ref 0x3000"]
      shim_forwards_any_handle [of mirror_proj 16 world2 NULL 2 1 "0x1000" "0x2000" "0x3000"
              "Ref 0x1000" "Ref 0x2000" "Ref 0x3000"]
      shim_forwards_any_handle [of failfast_proj NULL world2 NULL 2 1 "0x1000" "0x2000" "0x3000"
              "Ref 0x1000" "Ref 0x2000" "Ref 0x3000"]
      shim_forwards_any_handle [of failfast_proj NULL world2 NULL 0 1 "0x1000" "0x2000" "0x3000"
              "Ref 0x1000" "Ref 0x2000" "Ref 0x3000"]
    by (simp add: mirror_proj_simps failfast_proj_simps world2_def NULL_def)
qed

text \<open>
  C10. For every count, stride and pointers (zero and negative counts and strides and
  null pointers among them), \<open>transformPoints\<close> and \<open>transformSimplePoints\<close> are
  one call of \<^verbatim>\<open>pj_transform\<close> with exactly those values, the latter with a null z;
  the status is the library's, and there is no other outcome.
\<close>

theorem transformPoints_unchecked:
  "transformPoints L src dst n off x y z w =
     (case pj_transform L src dst n off x y z (lib w) (mem w) of
        None \<Rightarrow> None
      | Some (rc, s', m') \<Rightarrow>
          Some (rc, \<lparr>lib = s', mem = m', calls = calls w @ [Pj_transform src dst n off x y z]\<rparr>))
   \<and> transformSimplePoints L src dst n off x y w =
     (case pj_transform L src dst n off x y NULL (lib w) (mem w) of
        None \<Rightarrow> None
      | Some (rc, s', m') \<Rightarrow>
          Some (rc, \<lparr>lib = s', mem = m', calls = calls w @ [Pj_transform src dst n off x y NULL]\<rparr>))"
  by (simp add: transformPoints_def transformSimplePoints_def call_pj_transform_def projPJ_cast_def)

theorem transformPoints_unchecked_witness:
  "sint (- 1 :: clong) = - 1 \<and> sint (- 8 :: cint) = - 8
   \<and> transformPoints failfast_proj 16 32 (- 1) (- 8) NULL NULL NULL world0 =
     Some (0, \<lparr>lib = [16, 32], mem = mem0, calls = [Pj_transform 16 32 (- 1) (- 8) NULL NULL NULL]\<rparr>)
   \<and> transformSimplePoints failfast_proj 16 32 0 0 NULL NULL world0 =
     Some (0, \<lparr>lib = [16, 32], mem = mem0, calls = [Pj_transform 16 32 0 0 NULL NULL NULL]\<rparr>)
   \<and> transformPoints failfast_proj 16 32 1 0 NULL NULL NULL world0 =
     Some (- 14, \<lparr>lib = [16, 32], mem = mem0(NULL := HUGE_VAL),
                  calls = [Pj_transform 16 32 1 0 NULL NULL NULL]\<rparr>)"
  using transformPoints_unchecked [of failfast_proj 16 32 "- 1" "- 8" NULL NULL NULL world0]
    transformPoints_unchecked [of failfast_proj 16 32 0 0 NULL NULL NULL world0]
    transformPoints_unchecked [of failfast_proj 16 32 1 0 NULL NULL NULL world0]
  by (simp add: failfast_proj_simps world0_simps)


end
